theory Spec2Isabelle
  imports Complex_Main
begin

section \<open>The ROS front end of the monocular MSCKF: \<open>src/ros_interface.cpp\<close>\<close>

text \<open>
  The file holds one class, \<open>RosInterface\<close>: a constructor, two message callbacks
  (\<open>imuCallback\<close>, \<open>imageCallback\<close>), the set-up routines of the feature tracker and of
  the filter, and \<open>load_parameters\<close>, which derives the camera, noise and filter
  parameters from the ROS parameter server.

  Conventions of the embedding.
  \<^item> A C++ \<open>float\<close> or \<open>double\<close> is a \<^typ>\<open>real\<close>: the arithmetic of the source
    (one subtraction, divisions by a focal length, squares, a matrix-vector product) is
    read as exact arithmetic, rounding is not modelled, and a division by zero gives
    \<open>0\<close> where IEEE arithmetic gives an infinity or a NaN. A C++ \<open>int\<close> is an
    \<^typ>\<open>int\<close>; no integer arithmetic happens in the file.
  \<^item> A data member \<open>x_\<close> of the class is the record field \<open>x\<close> (a name may not end
    with an underscore).
  \<^item> The objects the class only talks to (the tracker, the filter, the publishers, the
    log) are not state of the model: every call made on them is recorded, in program
    order, in the list of calls a routine returns. What such an object answers is an
    input of the routine.
  \<^item> A failed \<open>ROS_ASSERT\<close> or an index outside a container ends the routine with an
    \<open>error\<close> value.
\<close>

subsection \<open>Vectors and matrices\<close>

type_synonym vec2 = "real \<times> real"
type_synonym vec3 = "real \<times> real \<times> real"

text \<open>A 3x3 matrix is the triple of its rows.\<close>

type_synonym mat3 = "vec3 \<times> vec3 \<times> vec3"

text \<open>
  A matrix of another fixed size (the 4x4 extrinsic transform, the 12x12 and 15x15
  covariances) is the function from (row, column) to the entry.
\<close>

type_synonym matrix = "nat \<times> nat \<Rightarrow> real"

fun transpose3 :: "mat3 \<Rightarrow> mat3" where
  "transpose3 ((m00, m01, m02), (m10, m11, m12), (m20, m21, m22)) =
     ((m00, m10, m20), (m01, m11, m21), (m02, m12, m22))"

fun mat_vec :: "mat3 \<Rightarrow> vec3 \<Rightarrow> vec3" where
  "mat_vec ((m00, m01, m02), (m10, m11, m12), (m20, m21, m22)) (x, y, z) =
     (m00 * x + m01 * y + m02 * z,
      m10 * x + m11 * y + m12 * z,
      m20 * x + m21 * y + m22 * z)"

text \<open>\<open>T.block<3,3>(0,0)\<close> and \<open>T.block<3,1>(0,3)\<close> of a 4x4 matrix.\<close>

definition block33 :: "matrix \<Rightarrow> mat3" where
  "block33 T = ((T (0, 0), T (0, 1), T (0, 2)),
                (T (1, 0), T (1, 1), T (1, 2)),
                (T (2, 0), T (2, 1), T (2, 2)))"

definition block31 :: "matrix \<Rightarrow> vec3" where
  "block31 T = (T (0, 3), T (1, 3), T (2, 3))"

text \<open>
  \<open>M.at<float>(i, j)\<close> of a 3x3 matrix, for the statements about \<open>K_\<close>; \<open>i\<close> and
  \<open>j\<close> are below 3 wherever it is used.
\<close>

definition at3 :: "mat3 \<Rightarrow> nat \<Rightarrow> nat \<Rightarrow> real" where
  "at3 M i j =
     (case M of (r0, r1, r2) \<Rightarrow> (case [r0, r1, r2] ! i of (x, y, z) \<Rightarrow> [x, y, z] ! j))"

text \<open>\<open>v.asDiagonal()\<close>: the square matrix with the vector on its diagonal.\<close>

definition asDiagonal :: "real list \<Rightarrow> matrix" where
  "asDiagonal v = (\<lambda>(i, j). if i = j \<and> i < length v then v ! i else 0)"

text \<open>
  \<open>Quaternion<float>(R)\<close> is Eigen's conversion of a rotation matrix; the library is not
  part of the repository, so the quaternion is kept as the matrix it was built from.
\<close>

datatype quaternion = Quaternion mat3

subsection \<open>Messages\<close>

text \<open>
  \<open>header.stamp.toSec()\<close> of a message is the field \<open>stamp\<close>, in seconds. The two
  message types extend the header.
\<close>

record Header =
  stamp :: real

record Imu = Header +
  linear_acceleration :: vec3
  angular_velocity :: vec3

record 'raw Image = Header +
  data :: 'raw

subsection \<open>The parameter server\<close>

datatype XmlRpcValue =
    TypeInvalid
  | TypeBoolean bool
  | TypeInt int
  | TypeDouble real
  | TypeString string
  | TypeArray "XmlRpcValue list"

text \<open>
  The node handle \<open>nh_\<close>, as far as the file reads it: one look-up per C++ type the
  source asks for. \<open>None\<close> is the case in which \<open>NodeHandle::getParam\<close> returns false
  (the key is absent, or its value does not convert to the type).
\<close>

record NodeHandle =
  getParam_string :: "string \<Rightarrow> string option"
  getParam_vector_float :: "string \<Rightarrow> real list option"
  getParam_XmlRpcValue :: "string \<Rightarrow> XmlRpcValue option"
  getParam_int :: "string \<Rightarrow> int option"
  getParam_float :: "string \<Rightarrow> real option"

text \<open>
  \<open>nh_.getParam(key, var)\<close> overwrites \<open>var\<close> when the look-up succeeds and leaves it as
  it was otherwise: \<open>getParam lookup key var\<close> is the value of \<open>var\<close> after the call.
  \<open>nh_.param<T>(key, var, default)\<close> stores the value found, or the default.
\<close>

definition getParam :: "(string \<Rightarrow> 'a option) \<Rightarrow> string \<Rightarrow> 'a \<Rightarrow> 'a" where
  "getParam lookup key var = (case lookup key of Some v \<Rightarrow> v | None \<Rightarrow> var)"

definition param :: "(string \<Rightarrow> 'a option) \<Rightarrow> string \<Rightarrow> 'a \<Rightarrow> 'a" where
  "param lookup key default_val = (case lookup key of Some v \<Rightarrow> v | None \<Rightarrow> default_val)"

subsection \<open>Parameter structures and the state of the class\<close>

record Camera =
  c_u :: real
  c_v :: real
  f_u :: real
  f_v :: real
  q_CI :: quaternion
  p_C_I :: vec3

record noiseParams =
  initial_imu_covar :: matrix
  Q_imu :: matrix
  u_var_prime :: real
  v_var_prime :: real

record MSCKFParams =
  max_gn_cost_norm :: real
  translation_threshold :: real
  min_rcond :: real
  redundancy_angle_thresh :: real
  redundancy_distance_thresh :: real
  max_track_length :: int
  min_track_length :: int
  max_cam_states :: int

record imuReading =
  a :: vec3
  omega :: vec3
  dT :: real

text \<open>
  The data members the file reads or writes. \<open>'st\<close> is the type of the filter's initial
  IMU state (\<open>imuState<float>\<close>), which the file only passes on.
\<close>

record 'st RosInterface =
  is_calibrating_imu :: bool
  is_first_imu :: bool
  prev_imu_time :: real
  imu_queue :: "(real \<times> imuReading) list"
  K :: mat3
  dist_coeffs :: "real list"
  distortion_model :: string
  camera_model :: string
  subscribe_topic :: string
  R_cam_imu :: mat3
  p_cam_imu :: vec3
  n_grid_rows :: int
  n_grid_cols :: int
  ransac_threshold :: real
  camera :: Camera
  noise_params :: noiseParams
  msckf_params :: MSCKFParams
  init_imu_state :: 'st

subsection \<open>Calls on the outside world\<close>

text \<open>One item of a \<open>ROS_INFO_STREAM\<close> or \<open>ROS_ERROR\<close> line: a piece streamed with \<open><<\<close>.\<close>

datatype log_item = Str string | Num nat | Flt real | Mat matrix

text \<open>
  \<open>'img\<close> is a decoded image (\<open>cv::Mat\<close>). The calls, with their arguments:
  on the tracker (\<open>track_handler_\<close>), on the filter (\<open>msckf_\<close>), on the image transport
  and the node handle, on the track-image publisher and on the log.
\<close>

datatype ('img, 'st) call =
    TrackHandler_new mat3 "real list" string
  | set_grid_size int int
  | set_ransac_threshold real
  | add_gyro_reading vec3
  | set_current_image 'img real
  | tracked_features
  | new_features
  | get_track_image
  | MSCKF_new
  | initialize Camera noiseParams MSCKFParams 'st
  | it_subscribe string nat
  | it_advertise string nat
  | nh_subscribe string nat
  | getNumSubscribers
  | publish string real string 'img
  | ROS_ERROR "log_item list"
  | ROS_INFO "log_item list"

text \<open>
  What the outside answers during one \<open>imageCallback\<close>: the vectors the tracker fills
  in \<open>tracked_features\<close> and \<open>new_features\<close>, the number of subscribers of the track
  image and the track image itself.
\<close>

record 'img answers =
  cur_features :: "vec2 list"
  cur_ids :: "nat list"
  new_features_out :: "vec2 list"
  new_ids :: "nat list"
  num_subscribers :: nat
  track_image :: 'img

datatype error = AssertionFailed | IndexOutOfRange

text \<open>The two encodings the file names, as \<open>sensor_msgs::image_encodings\<close> defines them.\<close>

definition MONO8 :: string where
  "MONO8 = ''mono8''"

definition TYPE_8UC3 :: string where
  "TYPE_8UC3 = ''8UC3''"

subsection \<open>\<open>imuCallback\<close> (lines 21-43)\<close>

text \<open>
  The first message only seeds \<open>prev_imu_time_\<close> and clears \<open>is_first_imu_\<close>. Every later
  message is turned into a reading and appended to \<open>imu_queue_\<close> with its time stamp.
  No other line of the file assigns \<open>prev_imu_time_\<close>.
\<close>

definition imuCallback :: "'st RosInterface \<Rightarrow> Imu \<Rightarrow> 'st RosInterface" where
  "imuCallback s imu =
     (let cur_imu_time = stamp imu in
      if is_first_imu s then
        s\<lparr>prev_imu_time := cur_imu_time, is_first_imu := False\<rparr>
      else
        (let current_imu =
               \<lparr>a = linear_acceleration imu,
                omega = angular_velocity imu,
                dT = cur_imu_time - prev_imu_time s\<rparr>
         in s\<lparr>imu_queue := imu_queue s @ [(cur_imu_time, current_imu)]\<rparr>))"

subsection \<open>\<open>imageCallback\<close> (lines 45-95) and \<open>publish_extra\<close> (lines 101-111)\<close>

text \<open>
  \<open>std::find_if\<close> over a list: the position of the first element that satisfies the
  predicate, or the length of the list (the end iterator) when there is none.
\<close>

fun find_if :: "('x \<Rightarrow> bool) \<Rightarrow> 'x list \<Rightarrow> nat" where
  "find_if p [] = 0"
| "find_if p (x # xs) = (if p x then 0 else Suc (find_if p xs))"

text \<open>
  The iterator \<open>frame_end\<close> (lines 63-64) and the local vector \<open>imu_since_prev_img\<close>
  (lines 66-68): the readings of the queue entries before \<open>frame_end\<close>.
\<close>

definition frame_end :: "real \<Rightarrow> (real \<times> imuReading) list \<Rightarrow> nat" where
  "frame_end cur_image_time queue = find_if (\<lambda>x. fst x > cur_image_time) queue"

definition imu_since_prev_img :: "real \<Rightarrow> (real \<times> imuReading) list \<Rightarrow> imuReading list" where
  "imu_since_prev_img cur_image_time queue =
     map snd (take (frame_end cur_image_time queue) queue)"

definition publish_extra :: "'img answers \<Rightarrow> real \<Rightarrow> ('img, 'st) call list" where
  "publish_extra env publish_time =
     (if num_subscribers env > 0 then
        [getNumSubscribers, get_track_image,
         publish ''cam0'' publish_time TYPE_8UC3 (track_image env)]
      else [getNumSubscribers])"

text \<open>
  \<open>toCvCopy\<close> is \<open>cv_bridge::toCvCopy\<close>: \<open>Inl what\<close> when it throws
  \<open>cv_bridge::Exception\<close>, \<open>Inr cv_ptr\<close> (the decoded image) otherwise. The callback returns the new state and
  the calls it made.
\<close>

definition imageCallback ::
  "('raw Image \<Rightarrow> string \<Rightarrow> string + 'img) \<Rightarrow> 'img answers \<Rightarrow>
   'st RosInterface \<Rightarrow> 'raw Image \<Rightarrow> 'st RosInterface \<times> ('img, 'st) call list" where
  "imageCallback toCvCopy env s msg =
     (let cur_image_time = stamp msg in
      case toCvCopy msg MONO8 of
        Inl what \<Rightarrow> (s, [ROS_ERROR [Str ''cv_bridge exception: '', Str what]])
      | Inr cv_ptr \<Rightarrow>
          (let readings = imu_since_prev_img cur_image_time (imu_queue s);
               gyro_calls =
                 map (\<lambda>reading.
                        add_gyro_reading (mat_vec (transpose3 (R_cam_imu s)) (omega reading)))
                     readings;
               s' = s\<lparr>imu_queue := drop (frame_end cur_image_time (imu_queue s)) (imu_queue s)\<rparr>
           in (s',
               gyro_calls
               @ [ROS_INFO [Num (length readings), Str '' imu readings in queue'']]
               @ [set_current_image cv_ptr cur_image_time,
                  tracked_features,
                  new_features,
                  ROS_INFO [Str ''Feature counts [tracked: '', Num (length (cur_features env)),
                            Str '',  new: '', Num (length (new_features_out env)), Str '']'']]
               @ publish_extra env cur_image_time)))"

subsection \<open>\<open>load_parameters\<close> (lines 126-240)\<close>

text \<open>
  The two loops over \<open>T_cam_imu\<close> (lines 158-165). \<open>read_row i j xs T\<close> stores the
  entries \<open>xs\<close> of row \<open>i\<close> from column \<open>j\<close> on; every entry must be a double
  (\<open>ROS_ASSERT\<close>), and \<open>T_cam_imu_(i,j)\<close> must lie inside the 4x4 matrix.
  \<open>read_rows i rs T\<close> does so for the rows \<open>rs\<close> from row \<open>i\<close> on; every row must be an
  array.
\<close>

fun read_row :: "nat \<Rightarrow> nat \<Rightarrow> XmlRpcValue list \<Rightarrow> matrix \<Rightarrow> error + matrix" where
  "read_row i j [] T = Inr T"
| "read_row i j (x # xs) T =
     (case x of
        TypeDouble d \<Rightarrow>
          (if i < 4 \<and> j < 4 then read_row i (Suc j) xs (T((i, j) := d))
           else Inl IndexOutOfRange)
      | _ \<Rightarrow> Inl AssertionFailed)"

fun read_rows :: "nat \<Rightarrow> XmlRpcValue list \<Rightarrow> matrix \<Rightarrow> error + matrix" where
  "read_rows i [] T = Inr T"
| "read_rows i (r # rs) T =
     (case r of
        TypeArray xs \<Rightarrow>
          (case read_row i 0 xs T of
             Inl e \<Rightarrow> Inl e
           | Inr T' \<Rightarrow> read_rows (Suc i) rs T')
      | _ \<Rightarrow> Inl AssertionFailed)"

definition read_T_cam_imu :: "XmlRpcValue \<Rightarrow> matrix \<Rightarrow> error + matrix" where
  "read_T_cam_imu ros_param_list T =
     (case ros_param_list of
        TypeArray rs \<Rightarrow> read_rows 0 rs T
      | _ \<Rightarrow> Inl AssertionFailed)"

text \<open>
  \<open>load_parameters nh T0 s\<close>: \<open>nh\<close> is the parameter server, \<open>T0\<close> the content of the
  local matrix \<open>T_cam_imu_\<close> before the loops write to it (the source does not
  initialise it), \<open>s\<close> the members before the call. The vectors \<open>intrinsics\<close> and
  \<open>distortion_coeffs\<close> start as four zeros and are replaced by whatever the server
  holds; reading one of their first four elements fails when the vector is shorter.

  Line 173 declares a local \<open>float ransac_threshold_\<close>, which hides the member of the
  same name: line 174 reads the parameter into that local, and the member keeps the
  value it had. The local is \<open>ransac_threshold_local\<close> below.
\<close>

definition load_parameters ::
  "NodeHandle \<Rightarrow> matrix \<Rightarrow> 'st RosInterface \<Rightarrow>
   error + ('st RosInterface \<times> ('img, 'st) call list)" where
  "load_parameters nh T0 s =
     (let kalibr_camera = getParam (getParam_string nh) ''kalibr_camera_name'' [];
          camera_model' =
            getParam (getParam_string nh) (kalibr_camera @ ''/camera_model'') (camera_model s);
          intrinsics =
            getParam (getParam_vector_float nh) (kalibr_camera @ ''/intrinsics'') [0, 0, 0, 0]
      in
      if length intrinsics < 4 then Inl IndexOutOfRange
      else
     (let K' = ((intrinsics ! 0, 0, intrinsics ! 2),
                (0, intrinsics ! 1, intrinsics ! 3),
                (0, 0, 1));
          distortion_model' =
            getParam (getParam_string nh) (kalibr_camera @ ''/distortion_model'')
              (distortion_model s);
          distortion_coeffs =
            getParam (getParam_vector_float nh) (kalibr_camera @ ''/distortion_coeffs'')
              [0, 0, 0, 0]
      in
      if length distortion_coeffs < 4 then Inl IndexOutOfRange
      else
     (let dist_coeffs' =
            [distortion_coeffs ! 0, distortion_coeffs ! 1,
             distortion_coeffs ! 2, distortion_coeffs ! 3]
            @ replicate (length distortion_coeffs - 4) 0;
          subscribe_topic' =
            getParam (getParam_string nh) (kalibr_camera @ ''/rostopic'') (subscribe_topic s);
          ros_param_list =
            getParam (getParam_XmlRpcValue nh) (kalibr_camera @ ''/T_cam_imu'') TypeInvalid
      in
      case read_T_cam_imu ros_param_list T0 of
        Inl e \<Rightarrow> Inl e
      | Inr T_cam_imu \<Rightarrow>
     (let R_cam_imu' = block33 T_cam_imu;
          p_cam_imu' = block31 T_cam_imu;
          n_grid_rows' = param (getParam_int nh) ''n_grid_rows'' 8;
          n_grid_cols' = param (getParam_int nh) ''n_grid_cols'' 8;
          ransac_threshold_local = param (getParam_float nh) ''ransac_threshold_'' 0.000002;
          camera' = (camera s)
            \<lparr>c_u := intrinsics ! 0,
             c_v := intrinsics ! 1,
             f_u := intrinsics ! 2,
             f_v := intrinsics ! 3,
             q_CI := Quaternion R_cam_imu',
             p_C_I := p_cam_imu'\<rparr>;
          feature_cov = param (getParam_float nh) ''feature_covariance'' 7;
          w_var = param (getParam_float nh) ''imu_vars/w_var'' (1 / 10 ^ 5);
          dbg_var = param (getParam_float nh) ''imu_vars/dbg_var'' (3.6733 / 10 ^ 5);
          a_var = param (getParam_float nh) ''imu_vars/a_var'' (1 / 10 ^ 3);
          dba_var = param (getParam_float nh) ''imu_vars/dba_var'' (7 / 10 ^ 4);
          Q_imu_vars =
            [w_var, w_var, w_var,
             dbg_var, dbg_var, dbg_var,
             a_var, a_var, a_var,
             dba_var, dba_var, dba_var];
          q_var_init = param (getParam_float nh) ''imu_covars/q_var_init'' (1 / 10 ^ 5);
          bg_var_init = param (getParam_float nh) ''imu_covars/bg_var_init'' (1 / 10 ^ 2);
          v_var_init = param (getParam_float nh) ''imu_covars/v_var_init'' (1 / 10 ^ 2);
          ba_var_init = param (getParam_float nh) ''imu_covars/ba_var_init'' (1 / 10 ^ 2);
          p_var_init = param (getParam_float nh) ''imu_covars/p_var_init'' (1 / 10 ^ 12);
          IMUCovar_vars =
            [q_var_init, q_var_init, q_var_init,
             bg_var_init, bg_var_init, bg_var_init,
             v_var_init, v_var_init, v_var_init,
             ba_var_init, ba_var_init, ba_var_init,
             p_var_init, p_var_init, p_var_init];
          noise_params' = (noise_params s)
            \<lparr>initial_imu_covar := asDiagonal IMUCovar_vars,
             Q_imu := asDiagonal Q_imu_vars,
             u_var_prime := (feature_cov / f_u camera') ^ 2,
             v_var_prime := (feature_cov / f_v camera') ^ 2\<rparr>;
          msckf_params' = (msckf_params s)
            \<lparr>max_gn_cost_norm :=
               (param (getParam_float nh) ''max_gn_cost_norm'' 11 / f_u camera') ^ 2,
             translation_threshold :=
               param (getParam_float nh) ''translation_threshold'' 0.05,
             min_rcond := param (getParam_float nh) ''min_rcond'' (3 / 10 ^ 12),
             redundancy_angle_thresh :=
               param (getParam_float nh) ''keyframe_transl_dist'' 0.005,
             redundancy_distance_thresh :=
               param (getParam_float nh) ''keyframe_rot_dist'' 0.05,
             max_track_length := param (getParam_int nh) ''max_track_length'' 1000,
             min_track_length := param (getParam_int nh) ''min_track_length'' 3,
             max_cam_states := param (getParam_int nh) ''max_cam_states'' 20\<rparr>
      in
      Inr (s\<lparr>camera_model := camera_model',
             K := K',
             distortion_model := distortion_model',
             dist_coeffs := dist_coeffs',
             subscribe_topic := subscribe_topic',
             R_cam_imu := R_cam_imu',
             p_cam_imu := p_cam_imu',
             n_grid_rows := n_grid_rows',
             n_grid_cols := n_grid_cols',
             camera := camera',
             noise_params := noise_params',
             msckf_params := msckf_params'\<rparr>,
           [ROS_INFO [Str ''Loaded '', Str kalibr_camera],
            ROS_INFO [Str ''-Intrinsics '', Flt (intrinsics ! 0), Str '', '',
                      Flt (intrinsics ! 1), Str '', '',
                      Flt (intrinsics ! 2), Str '', '',
                      Flt (intrinsics ! 3)],
            ROS_INFO [Str ''-Distortion '', Flt (distortion_coeffs ! 0), Str '', '',
                      Flt (distortion_coeffs ! 1), Str '', '',
                      Flt (distortion_coeffs ! 2), Str '', '',
                      Flt (distortion_coeffs ! 3)],
            ROS_INFO [Str ''-Camera topic '', Str subscribe_topic'],
            ROS_INFO [Str ''-T_cam_imu '', Mat T_cam_imu]])))))"

subsection \<open>Set-up routines and the constructor (lines 5-19 and 113-124)\<close>

definition setup_track_handler :: "'st RosInterface \<Rightarrow> ('img, 'st) call list" where
  "setup_track_handler s =
     [TrackHandler_new (K s) (dist_coeffs s) (distortion_model s),
      set_grid_size (n_grid_rows s) (n_grid_cols s),
      set_ransac_threshold (ransac_threshold s)]"

definition setup_msckf :: "'st RosInterface \<Rightarrow> ('img, 'st) call list" where
  "setup_msckf s =
     [MSCKF_new,
      initialize (camera s) (noise_params s) (msckf_params s) (init_imu_state s)]"

text \<open>
  The constructor: \<open>obj\<close> is the object before the constructor runs. The initialiser
  list sets \<open>is_calibrating_imu_\<close> and no other member of the model; the body loads the
  parameters, sets up the tracker and subscribes. It does not call \<open>setup_msckf\<close>, and
  no other routine of the file does.
\<close>

definition RosInterface_ctor ::
  "NodeHandle \<Rightarrow> matrix \<Rightarrow> 'st RosInterface \<Rightarrow>
   error + ('st RosInterface \<times> ('img, 'st) call list)" where
  "RosInterface_ctor nh T0 obj =
     (case load_parameters nh T0 (obj\<lparr>is_calibrating_imu := True\<rparr>) of
        Inl e \<Rightarrow> Inl e
      | Inr (s, loaded) \<Rightarrow>
          Inr (s,
               loaded
               @ setup_track_handler s
               @ [it_subscribe ''/rig/left/image_mono'' 1,
                  it_advertise ''/rig/left/image_mono/tracks'' 1,
                  nh_subscribe ''/rig/imu'' 10]))"

subsection \<open>Delivery of a stream of messages\<close>

text \<open>
  ROS delivers the messages of the two subscriptions one at a time. \<open>deliver\<close> feeds
  a list of arrivals to the two callbacks in order and collects, over all image
  arrivals, the readings each of them took out of the queue (the local vector
  \<open>imu_since_prev_img\<close> of that call; an image that fails to decode takes none).
  \<open>imu_messages\<close> are the inertial messages of the arrivals, in order.
\<close>

datatype ('raw, 'img) arrival =
    imu_arrived Imu
  | image_arrived "'raw Image" "'img answers"

fun deliver ::
  "('raw Image \<Rightarrow> string \<Rightarrow> string + 'img) \<Rightarrow> 'st RosInterface \<Rightarrow>
   ('raw, 'img) arrival list \<Rightarrow> 'st RosInterface \<times> imuReading list" where
  "deliver toCvCopy s [] = (s, [])"
| "deliver toCvCopy s (imu_arrived imu # es) = deliver toCvCopy (imuCallback s imu) es"
| "deliver toCvCopy s (image_arrived msg env # es) =
     (let drained =
            (case toCvCopy msg MONO8 of
               Inl what \<Rightarrow> []
             | Inr cv_ptr \<Rightarrow> imu_since_prev_img (stamp msg) (imu_queue s));
          s' = fst (imageCallback toCvCopy env s msg)
      in (fst (deliver toCvCopy s' es), drained @ snd (deliver toCvCopy s' es)))"

fun imu_messages :: "('raw, 'img) arrival list \<Rightarrow> Imu list" where
  "imu_messages [] = []"
| "imu_messages (imu_arrived imu # es) = imu # imu_messages es"
| "imu_messages (image_arrived msg env # es) = imu_messages es"

text \<open>
  What a reading carries of the message it was made from: the two measured vectors.
\<close>

definition measured :: "imuReading \<Rightarrow> vec3 \<times> vec3" where
  "measured reading = (a reading, omega reading)"

definition measurement :: "Imu \<Rightarrow> vec3 \<times> vec3" where
  "measurement imu = (linear_acceleration imu, angular_velocity imu)"

text \<open>Observers of a list of calls.\<close>

fun is_initialize :: "('img, 'st) call \<Rightarrow> bool" where
  "is_initialize (initialize cam noise params st) = True"
| "is_initialize c = False"

fun is_add_gyro_reading :: "('img, 'st) call \<Rightarrow> bool" where
  "is_add_gyro_reading (add_gyro_reading v) = True"
| "is_add_gyro_reading c = False"

fun is_set_current_image :: "('img, 'st) call \<Rightarrow> bool" where
  "is_set_current_image (set_current_image cv_ptr t) = True"
| "is_set_current_image c = False"

subsection \<open>Example inputs\<close>

text \<open>
  An object whose numeric members are zero, whose strings and queue are empty and which
  waits for its first inertial message; \<open>stored_threshold\<close> is what the member
  \<open>ransac_threshold_\<close> holds.
\<close>

definition fresh :: "real \<Rightarrow> unit RosInterface" where
  "fresh stored_threshold =
     \<lparr>is_calibrating_imu = True,
      is_first_imu = True,
      prev_imu_time = 0,
      imu_queue = [],
      K = ((0, 0, 0), (0, 0, 0), (0, 0, 0)),
      dist_coeffs = [],
      distortion_model = [],
      camera_model = [],
      subscribe_topic = [],
      R_cam_imu = ((1, 0, 0), (0, 1, 0), (0, 0, 1)),
      p_cam_imu = (0, 0, 0),
      n_grid_rows = 0,
      n_grid_cols = 0,
      ransac_threshold = stored_threshold,
      camera = \<lparr>c_u = 0, c_v = 0, f_u = 0, f_v = 0,
                q_CI = Quaternion ((0, 0, 0), (0, 0, 0), (0, 0, 0)), p_C_I = (0, 0, 0)\<rparr>,
      noise_params = \<lparr>initial_imu_covar = (\<lambda>ij. 0), Q_imu = (\<lambda>ij. 0),
                      u_var_prime = 0, v_var_prime = 0\<rparr>,
      msckf_params = \<lparr>max_gn_cost_norm = 0, translation_threshold = 0, min_rcond = 0,
                      redundancy_angle_thresh = 0, redundancy_distance_thresh = 0,
                      max_track_length = 0, min_track_length = 0, max_cam_states = 0\<rparr>,
      init_imu_state = ()\<rparr>"

text \<open>
  A parameter server that holds a camera \<open>cam0\<close> with the given intrinsics and the
  identity as extrinsic transform, and the given scalar parameters of type \<open>float\<close>.
\<close>

definition identity_transform :: XmlRpcValue where
  "identity_transform =
     TypeArray
       [TypeArray [TypeDouble 1, TypeDouble 0, TypeDouble 0, TypeDouble 0],
        TypeArray [TypeDouble 0, TypeDouble 1, TypeDouble 0, TypeDouble 0],
        TypeArray [TypeDouble 0, TypeDouble 0, TypeDouble 1, TypeDouble 0],
        TypeArray [TypeDouble 0, TypeDouble 0, TypeDouble 0, TypeDouble 1]]"

definition server :: "real list \<Rightarrow> (string \<Rightarrow> real option) \<Rightarrow> NodeHandle" where
  "server intrinsics floats =
     \<lparr>getParam_string = [''kalibr_camera_name'' \<mapsto> ''cam0''],
      getParam_vector_float = [''cam0/intrinsics'' \<mapsto> intrinsics],
      getParam_XmlRpcValue = [''cam0/T_cam_imu'' \<mapsto> identity_transform],
      getParam_int = Map.empty,
      getParam_float = floats\<rparr>"

text \<open>An inertial message with the given time stamp and angular velocity.\<close>

definition imu_at :: "real \<Rightarrow> vec3 \<Rightarrow> Imu" where
  "imu_at t w = \<lparr>stamp = t, linear_acceleration = (0, 0, 0), angular_velocity = w\<rparr>"

text \<open>A queue entry as \<open>imuCallback\<close> makes it from \<open>imu_at t w\<close> at time gap \<open>gap\<close>.\<close>

definition entry :: "real \<Rightarrow> vec3 \<Rightarrow> real \<Rightarrow> real \<times> imuReading" where
  "entry t w gap = (t, \<lparr>a = (0, 0, 0), omega = w, dT = gap\<rparr>)"

text \<open>An image message, the decoder that accepts every image, and quiet answers.\<close>

definition image_at :: "real \<Rightarrow> nat Image" where
  "image_at t = \<lparr>stamp = t, data = 0\<rparr>"

definition decode_ok :: "nat Image \<Rightarrow> string \<Rightarrow> string + nat" where
  "decode_ok msg encoding = Inr (data msg)"

definition decode_fails :: "nat Image \<Rightarrow> string \<Rightarrow> string + nat" where
  "decode_fails msg encoding = Inl ''unsupported encoding''"

definition quiet :: "nat answers" where
  "quiet = \<lparr>cur_features = [], cur_ids = [], new_features_out = [], new_ids = [],
            num_subscribers = 0, track_image = 0\<rparr>"

section \<open>Properties\<close>

subsection \<open>The queue and the cut at an image's time stamp\<close>

lemma take_find_if: "take (find_if p xs) xs = takeWhile (\<lambda>x. \<not> p x) xs"
  by (induction xs) simp_all

lemma drop_find_if: "drop (find_if p xs) xs = dropWhile (\<lambda>x. \<not> p x) xs"
  by (induction xs) simp_all

lemma find_if_le_length: "find_if p xs \<le> length xs"
  by (induction xs) simp_all

lemma find_if_hit: "find_if p xs < length xs \<Longrightarrow> p (xs ! find_if p xs)"
  by (induction xs) (auto split: if_splits)

lemma find_if_before: "i < find_if p xs \<Longrightarrow> \<not> p (xs ! i)"
proof (induction xs arbitrary: i)
  case Nil
  then show ?case by simp
next
  case (Cons x xs)
  then show ?case by (cases i) (auto split: if_splits)
qed

text \<open>
  \<open>frame_end\<close> is the position of the first queue entry whose time stamp is later
  than the image's; every entry before it is not later.
\<close>

lemma frame_end_first_later:
  "frame_end t q \<le> length q
   \<and> (\<forall>i < frame_end t q. fst (q ! i) \<le> t)
   \<and> (frame_end t q < length q \<longrightarrow> t < fst (q ! frame_end t q))"
proof -
  have "\<forall>i < frame_end t q. fst (q ! i) \<le> t"
    using find_if_before [of _ "\<lambda>x. fst x > t" q] by (auto simp: frame_end_def not_less)
  moreover have "frame_end t q < length q \<longrightarrow> t < fst (q ! frame_end t q)"
    using find_if_hit [of "\<lambda>x. fst x > t" q] by (simp add: frame_end_def)
  ultimately show ?thesis by (simp add: frame_end_def find_if_le_length)
qed

lemma takeWhile_sorted_filter:
  "sorted (map fst q) \<Longrightarrow>
   takeWhile (\<lambda>x. \<not> fst x > (t::real)) q = filter (\<lambda>x. fst x \<le> t) q"
proof (induction q)
  case Nil
  then show ?case by simp
next
  case (Cons x q)
  show ?case
  proof (cases "fst x \<le> t")
    case True
    with Cons show ?thesis by simp
  next
    case False
    with Cons.prems have "\<forall>y\<in>set q. \<not> fst y \<le> t" by fastforce
    then have "filter (\<lambda>x. fst x \<le> t) q = []" by (simp add: filter_empty_conv)
    with False show ?thesis by simp
  qed
qed

lemma dropWhile_sorted_filter:
  "sorted (map fst q) \<Longrightarrow>
   dropWhile (\<lambda>x. \<not> fst x > (t::real)) q = filter (\<lambda>x. fst x > t) q"
proof (induction q)
  case Nil
  then show ?case by simp
next
  case (Cons x q)
  show ?case
  proof (cases "fst x \<le> t")
    case True
    with Cons show ?thesis by simp
  next
    case False
    with Cons.prems have "\<forall>y\<in>set q. fst y > t" by fastforce
    then have "filter (\<lambda>x. fst x > t) q = q" by (simp add: filter_id_conv)
    with False show ?thesis by simp
  qed
qed

text \<open>
  Claim C2. When an image that decodes arrives and the time stamps in the queue are
  non-decreasing, the readings taken out of the queue are those of the longest prefix
  whose time stamps do not exceed the image's time stamp, which are all the entries
  with such a time stamp, in queue order; the queue keeps exactly the entries with a
  later time stamp, in queue order. On an empty queue nothing is taken and the queue
  stays empty.
\<close>

theorem drain_partitions_queue:
  assumes ordered: "sorted (map fst (imu_queue s))"
      and decoded: "toCvCopy msg MONO8 = Inr cv_ptr"
  shows "imu_since_prev_img (stamp msg) (imu_queue s)
           = map snd (takeWhile (\<lambda>x. \<not> fst x > stamp msg) (imu_queue s))
       \<and> imu_since_prev_img (stamp msg) (imu_queue s)
           = map snd (filter (\<lambda>x. fst x \<le> stamp msg) (imu_queue s))
       \<and> imu_queue (fst (imageCallback toCvCopy env s msg))
           = dropWhile (\<lambda>x. \<not> fst x > stamp msg) (imu_queue s)
       \<and> imu_queue (fst (imageCallback toCvCopy env s msg))
           = filter (\<lambda>x. fst x > stamp msg) (imu_queue s)
       \<and> (imu_queue s = [] \<longrightarrow>
            imu_since_prev_img (stamp msg) (imu_queue s) = []
            \<and> imu_queue (fst (imageCallback toCvCopy env s msg)) = [])"
proof -
  let ?t = "stamp msg" and ?q = "imu_queue s"
  have taken: "imu_since_prev_img ?t ?q = map snd (takeWhile (\<lambda>x. \<not> fst x > ?t) ?q)"
    by (simp add: imu_since_prev_img_def frame_end_def take_find_if)
  have left: "imu_queue (fst (imageCallback toCvCopy env s msg))
                = dropWhile (\<lambda>x. \<not> fst x > ?t) ?q"
    using decoded by (simp add: imageCallback_def Let_def frame_end_def drop_find_if)
  have taken': "imu_since_prev_img ?t ?q = map snd (filter (\<lambda>x. fst x \<le> ?t) ?q)"
    using taken takeWhile_sorted_filter [OF ordered, of ?t] by simp
  have left': "imu_queue (fst (imageCallback toCvCopy env s msg))
                = filter (\<lambda>x. fst x > ?t) ?q"
    using left dropWhile_sorted_filter [OF ordered, of ?t] by simp
  have none: "?q = [] \<longrightarrow> imu_since_prev_img ?t ?q = []
                \<and> imu_queue (fst (imageCallback toCvCopy env s msg)) = []"
    using left by (simp add: imu_since_prev_img_def frame_end_def)
  from taken taken' left left' none show ?thesis by blast
qed

theorem drain_partitions_queue_witness:
  "sorted (map fst [entry 1.0 (0, 0, 1) 0.1, entry 1.1 (0, 0, 1) 0.1,
                    entry 1.2 (0, 0, 1) 0.1, entry 1.3 (0, 0, 1) 0.1])
   \<and> decode_ok (image_at 1.15) MONO8 = Inr 0
   \<and> imu_since_prev_img 1.15
        [entry 1.0 (0, 0, 1) 0.1, entry 1.1 (0, 0, 1) 0.1,
         entry 1.2 (0, 0, 1) 0.1, entry 1.3 (0, 0, 1) 0.1]
      = [snd (entry 1.0 (0, 0, 1) 0.1), snd (entry 1.1 (0, 0, 1) 0.1)]
   \<and> imu_queue (fst (imageCallback decode_ok quiet
        ((fresh 0)\<lparr>imu_queue := [entry 1.0 (0, 0, 1) 0.1, entry 1.1 (0, 0, 1) 0.1,
                                 entry 1.2 (0, 0, 1) 0.1, entry 1.3 (0, 0, 1) 0.1]\<rparr>)
        (image_at 1.15)))
      = [entry 1.2 (0, 0, 1) 0.1, entry 1.3 (0, 0, 1) 0.1]
   \<and> imu_since_prev_img 0.5 (imu_queue (fresh 0)) = []
   \<and> imu_queue (fst (imageCallback decode_ok quiet (fresh 0) (image_at 0.5))) = []"
proof -
  let ?q = "[entry 1.0 (0, 0, 1) 0.1, entry 1.1 (0, 0, 1) 0.1,
             entry 1.2 (0, 0, 1) 0.1, entry 1.3 (0, 0, 1) 0.1]"
  let ?s = "(fresh 0)\<lparr>imu_queue := ?q\<rparr>"
  have ordered: "sorted (map fst (imu_queue ?s))" by (simp add: entry_def)
  have decoded: "decode_ok (image_at 1.15) MONO8 = Inr 0"
    by (simp add: decode_ok_def image_at_def)
  have ordered0: "sorted (map fst (imu_queue (fresh 0)))" by (simp add: fresh_def)
  have decoded0: "decode_ok (image_at 0.5) MONO8 = Inr 0"
    by (simp add: decode_ok_def image_at_def)
  have empty0: "imu_queue (fresh 0) = []" by (simp add: fresh_def)
  show ?thesis
    using drain_partitions_queue [of ?s decode_ok "image_at 1.15" 0 quiet, OF ordered decoded]
      drain_partitions_queue [of "fresh 0" decode_ok "image_at 0.5" 0 quiet, OF ordered0 decoded0]
      ordered decoded empty0
    by (simp add: entry_def image_at_def)
qed

subsection \<open>Inertial messages\<close>

lemma imuCallback_first:
  "is_first_imu s \<Longrightarrow>
   imuCallback s imu = s\<lparr>prev_imu_time := stamp imu, is_first_imu := False\<rparr>"
  by (simp add: imuCallback_def)

lemma imuCallback_later:
  "\<not> is_first_imu s \<Longrightarrow>
   imuCallback s imu =
     s\<lparr>imu_queue := imu_queue s @
         [(stamp imu, \<lparr>a = linear_acceleration imu, omega = angular_velocity imu,
                        dT = stamp imu - prev_imu_time s\<rparr>)]\<rparr>"
  by (simp add: imuCallback_def Let_def)

lemma prev_imu_time_kept:
  "\<not> is_first_imu s \<Longrightarrow> prev_imu_time (imuCallback s imu) = prev_imu_time s
     \<and> \<not> is_first_imu (imuCallback s imu)"
  by (simp add: imuCallback_later)

text \<open>
  Claim C3, evaluated on the code. Three inertial messages arrive at 1.0, 1.1 and 1.2
  on a fresh object. The reading of the third is queued with the gap 0.2 to the first
  message, not the gap 0.1 to the message before it: \<open>prev_imu_time_\<close> is assigned for
  the first message only (\<open>prev_imu_time_kept\<close>).
\<close>

theorem gap_of_third_reading:
  "imu_queue (foldl imuCallback (fresh 0)
       [imu_at 1.0 (0, 0, 1), imu_at 1.1 (0, 0, 1), imu_at 1.2 (0, 0, 1)])
     = [entry 1.1 (0, 0, 1) 0.1, entry 1.2 (0, 0, 1) 0.2]
   \<and> dT (snd (entry 1.2 (0, 0, 1) 0.2)) \<noteq> 1.2 - 1.1"
  by (simp add: imuCallback_def fresh_def imu_at_def entry_def Let_def)

subsection \<open>Image messages\<close>

text \<open>
  Claim C7. When the image does not decode to \<open>MONO8\<close>, the callback returns with
  the state as it was (the queue in particular) and its only call is the error line
  of the log: nothing is forwarded to the tracker and the frame is not handed to it.
  The callback is a total function of its arguments, so nothing escapes it, and the
  unchanged state keeps no trace of the image that a later call could retry.
\<close>

theorem decode_failure_drops_image:
  "toCvCopy msg MONO8 = Inl what \<Longrightarrow>
   imageCallback toCvCopy env s msg
     = (s, [ROS_ERROR [Str ''cv_bridge exception: '', Str what]])"
  by (simp add: imageCallback_def)

theorem decode_failure_drops_image_witness:
  "decode_fails (image_at 1.15) MONO8 = Inl ''unsupported encoding''
   \<and> imageCallback decode_fails quiet
        ((fresh 0)\<lparr>imu_queue := [entry 1.0 (0, 0, 1) 0.1, entry 1.2 (0, 0, 1) 0.1]\<rparr>)
        (image_at 1.15)
      = ((fresh 0)\<lparr>imu_queue := [entry 1.0 (0, 0, 1) 0.1, entry 1.2 (0, 0, 1) 0.1]\<rparr>,
         [ROS_ERROR [Str ''cv_bridge exception: '', Str ''unsupported encoding'']])"
proof -
  have failed: "decode_fails (image_at 1.15) MONO8 = Inl ''unsupported encoding''"
    by (simp add: decode_fails_def)
  show ?thesis
    using failed decode_failure_drops_image [of decode_fails "image_at 1.15" "''unsupported encoding''"]
    by simp
qed

lemma imu_since_prev_img_Nil: "imu_since_prev_img t [] = []"
  by (simp add: imu_since_prev_img_def frame_end_def)

lemma publish_extra_no_gyro: "filter is_add_gyro_reading (publish_extra env t) = []"
  by (simp add: publish_extra_def)

lemma publish_extra_no_frame: "filter is_set_current_image (publish_extra env t) = []"
  by (simp add: publish_extra_def)

lemma filter_gyro_calls:
  "filter is_add_gyro_reading (map (\<lambda>reading. add_gyro_reading (f reading)) rs)
     = map (\<lambda>reading. add_gyro_reading (f reading)) rs"
  by (induction rs) simp_all

lemma filter_frame_gyro_calls:
  "filter is_set_current_image (map (\<lambda>reading. add_gyro_reading (f reading)) rs) = []"
  by (induction rs) simp_all

text \<open>
  Claim C4. When the image decodes, the calls of the callback are, in this order: one
  \<open>add_gyro_reading\<close> per reading taken out of the queue, in queue order, carrying the
  transposed \<open>R_cam_imu_\<close> applied to the reading's angular velocity; the count line of
  the log; \<open>set_current_image\<close> with the decoded image and its time stamp; the two
  feature queries, the second log line and the calls of \<open>publish_extra\<close>. These are all
  the \<open>add_gyro_reading\<close> calls, and \<open>set_current_image\<close> is called once. With an empty
  queue no reading is forwarded and the frame is still handed over.
\<close>

theorem gyro_readings_forwarded_before_frame:
  assumes decoded: "toCvCopy msg MONO8 = Inr cv_ptr"
  shows "snd (imageCallback toCvCopy env s msg)
           = map (\<lambda>reading. add_gyro_reading
                                (mat_vec (transpose3 (R_cam_imu s)) (omega reading)))
                 (imu_since_prev_img (stamp msg) (imu_queue s))
             @ [ROS_INFO [Num (length (imu_since_prev_img (stamp msg) (imu_queue s))),
                          Str '' imu readings in queue''],
                set_current_image cv_ptr (stamp msg)]
             @ [tracked_features, new_features,
                ROS_INFO [Str ''Feature counts [tracked: '', Num (length (cur_features env)),
                          Str '',  new: '', Num (length (new_features_out env)), Str '']'']]
             @ publish_extra env (stamp msg)
       \<and> filter is_add_gyro_reading (snd (imageCallback toCvCopy env s msg))
           = map (\<lambda>reading. add_gyro_reading
                                (mat_vec (transpose3 (R_cam_imu s)) (omega reading)))
                 (imu_since_prev_img (stamp msg) (imu_queue s))
       \<and> filter is_set_current_image (snd (imageCallback toCvCopy env s msg))
           = [set_current_image cv_ptr (stamp msg)]
       \<and> filter is_add_gyro_reading (publish_extra env (stamp msg)) = []
       \<and> (imu_queue s = [] \<longrightarrow>
            filter is_add_gyro_reading (snd (imageCallback toCvCopy env s msg)) = []
            \<and> set_current_image cv_ptr (stamp msg)
                 \<in> set (snd (imageCallback toCvCopy env s msg)))"
proof -
  let ?gyro = "map (\<lambda>reading. add_gyro_reading
                                (mat_vec (transpose3 (R_cam_imu s)) (omega reading)))
                 (imu_since_prev_img (stamp msg) (imu_queue s))"
  have calls: "snd (imageCallback toCvCopy env s msg)
           = ?gyro
             @ [ROS_INFO [Num (length (imu_since_prev_img (stamp msg) (imu_queue s))),
                          Str '' imu readings in queue''],
                set_current_image cv_ptr (stamp msg)]
             @ [tracked_features, new_features,
                ROS_INFO [Str ''Feature counts [tracked: '', Num (length (cur_features env)),
                          Str '',  new: '', Num (length (new_features_out env)), Str '']'']]
             @ publish_extra env (stamp msg)"
    using decoded by (simp add: imageCallback_def Let_def)
  have gyro: "filter is_add_gyro_reading (snd (imageCallback toCvCopy env s msg)) = ?gyro"
    by (simp add: calls filter_gyro_calls publish_extra_no_gyro)
  have frame: "filter is_set_current_image (snd (imageCallback toCvCopy env s msg))
                 = [set_current_image cv_ptr (stamp msg)]"
    by (simp add: calls filter_frame_gyro_calls publish_extra_no_frame)
  have none: "imu_queue s = [] \<longrightarrow>
            filter is_add_gyro_reading (snd (imageCallback toCvCopy env s msg)) = []
            \<and> set_current_image cv_ptr (stamp msg)
                 \<in> set (snd (imageCallback toCvCopy env s msg))"
    by (simp add: gyro imu_since_prev_img_Nil) (simp add: calls)
  from calls gyro frame none publish_extra_no_gyro show ?thesis by blast
qed

theorem gyro_readings_forwarded_before_frame_witness:
  "decode_ok (image_at 1.15) MONO8 = Inr 0
   \<and> snd (imageCallback decode_ok quiet
        ((fresh 0)\<lparr>R_cam_imu := ((0, -1, 0), (1, 0, 0), (0, 0, 1)),
                   imu_queue := [entry 1.0 (1, 0, 0) 0.1, entry 1.1 (0, 1, 0) 0.1,
                                 entry 1.2 (0, 0, 1) 0.1, entry 1.3 (0, 0, 1) 0.1]\<rparr>)
        (image_at 1.15))
      = [add_gyro_reading (0, -1, 0), add_gyro_reading (1, 0, 0),
         ROS_INFO [Num 2, Str '' imu readings in queue''],
         set_current_image 0 1.15,
         tracked_features, new_features,
         ROS_INFO [Str ''Feature counts [tracked: '', Num 0, Str '',  new: '', Num 0, Str '']''],
         getNumSubscribers]
   \<and> decode_ok (image_at 0.5) MONO8 = Inr 0
   \<and> filter is_add_gyro_reading
        (snd (imageCallback decode_ok quiet (fresh 0) (image_at 0.5))
           :: (nat, unit) call list) = []
   \<and> set_current_image 0 0.5
        \<in> set (snd (imageCallback decode_ok quiet (fresh 0) (image_at 0.5))
                  :: (nat, unit) call list)"
proof -
  let ?s = "(fresh 0)\<lparr>R_cam_imu := ((0, -1, 0), (1, 0, 0), (0, 0, 1)),
                   imu_queue := [entry 1.0 (1, 0, 0) 0.1, entry 1.1 (0, 1, 0) 0.1,
                                 entry 1.2 (0, 0, 1) 0.1, entry 1.3 (0, 0, 1) 0.1]\<rparr>"
  have decoded: "decode_ok (image_at 1.15) MONO8 = Inr 0"
    by (simp add: decode_ok_def image_at_def)
  have decoded0: "decode_ok (image_at 0.5) MONO8 = Inr 0"
    by (simp add: decode_ok_def image_at_def)
  have empty0: "imu_queue (fresh 0) = []" by (simp add: fresh_def)
  have taken: "imu_since_prev_img 1.15 (imu_queue ?s)
                 = [snd (entry 1.0 (1, 0, 0) 0.1), snd (entry 1.1 (0, 1, 0) 0.1)]"
    by (simp add: imu_since_prev_img_def frame_end_def entry_def)
  show ?thesis
    using gyro_readings_forwarded_before_frame [of decode_ok "image_at 1.15" 0 quiet ?s, OF decoded]
      gyro_readings_forwarded_before_frame [of decode_ok "image_at 0.5" 0 quiet "fresh 0", OF decoded0]
      decoded decoded0 empty0 taken
    by (simp add: entry_def image_at_def quiet_def publish_extra_def imu_since_prev_img_Nil)
qed

subsection \<open>A stream of messages\<close>

lemma imageCallback_state:
  "fst (imageCallback toCvCopy env s msg) =
     (case toCvCopy msg MONO8 of
        Inl what \<Rightarrow> s
      | Inr cv_ptr \<Rightarrow>
          s\<lparr>imu_queue := drop (frame_end (stamp msg) (imu_queue s)) (imu_queue s)\<rparr>)"
  by (simp add: imageCallback_def Let_def split: sum.splits)

lemma measured_queued:
  "\<not> is_first_imu s \<Longrightarrow>
   map (\<lambda>x. measured (snd x)) (imu_queue (imuCallback s imu))
     = map (\<lambda>x. measured (snd x)) (imu_queue s) @ [measurement imu]"
  by (simp add: imuCallback_later measured_def measurement_def)

lemma deliver_accounts_for_readings:
  "map measured (snd (deliver toCvCopy s es))
     @ map (\<lambda>x. measured (snd x)) (imu_queue (fst (deliver toCvCopy s es)))
   = map (\<lambda>x. measured (snd x)) (imu_queue s)
     @ map measurement (if is_first_imu s then tl (imu_messages es) else imu_messages es)"
proof (induction toCvCopy s es rule: deliver.induct)
  case (1 toCvCopy s)
  show ?case by simp
next
  case (2 toCvCopy s imu es)
  show ?case
  proof (cases "is_first_imu s")
    case True
    then show ?thesis using "2.IH" by (simp add: imuCallback_first)
  next
    case False
    then show ?thesis
      using "2.IH" measured_queued [OF False, of imu] prev_imu_time_kept [OF False, of imu]
      by simp
  qed
next
  case (3 toCvCopy s msg env es)
  let ?s' = "fst (imageCallback toCvCopy env s msg)"
  let ?k = "frame_end (stamp msg) (imu_queue s)"
  have IH: "map measured (snd (deliver toCvCopy ?s' es))
     @ map (\<lambda>x. measured (snd x)) (imu_queue (fst (deliver toCvCopy ?s' es)))
   = map (\<lambda>x. measured (snd x)) (imu_queue ?s')
     @ map measurement (if is_first_imu ?s' then tl (imu_messages es) else imu_messages es)"
    using "3.IH" by simp
  show ?case
  proof (cases "toCvCopy msg MONO8")
    case (Inl what)
    then have "?s' = s" by (simp add: imageCallback_state)
    with IH Inl show ?thesis by (simp add: Let_def)
  next
    case (Inr cv_ptr)
    then have s': "?s' = s\<lparr>imu_queue := drop ?k (imu_queue s)\<rparr>"
      by (simp add: imageCallback_state)
    have "map (\<lambda>x. measured (snd x)) (take ?k (imu_queue s))
            @ map (\<lambda>x. measured (snd x)) (drop ?k (imu_queue s))
          = map (\<lambda>x. measured (snd x)) (take ?k (imu_queue s) @ drop ?k (imu_queue s))"
      by (simp only: map_append)
    then have split: "map (\<lambda>x. measured (snd x)) (imu_queue s)
        = map measured (imu_since_prev_img (stamp msg) (imu_queue s))
          @ map (\<lambda>x. measured (snd x)) (drop ?k (imu_queue s))"
      by (simp add: imu_since_prev_img_def comp_def)
    from IH Inr show ?thesis by (simp add: Let_def s' split)
  qed
qed

text \<open>
  Claim C5, as amended. Start with an object that waits for its first inertial message
  and has an empty queue, and deliver any list of inertial and image messages
  (decoding or not). The readings taken out by the image arrivals, one arrival after
  the other, followed by the readings still in the queue, are the measurements of all
  inertial messages but the first, each once and in arrival order.
\<close>

theorem readings_neither_lost_nor_duplicated:
  assumes "is_first_imu s" and "imu_queue s = []"
  shows "map measured
           (snd (deliver toCvCopy s es) @ map snd (imu_queue (fst (deliver toCvCopy s es))))
         = map measurement (tl (imu_messages es))"
  using deliver_accounts_for_readings [of toCvCopy s es] assms by (simp add: comp_def)

text \<open>
  Claim C5 as stated fails: the readings taken out by the images alone are not all the
  inertial messages but the first. After messages at 1.0, 1.1 and 1.2 and an image at
  1.15, only the reading of 1.1 has been taken out; the reading of 1.2 is still queued.
\<close>

theorem drained_readings_counterexample:
  "map measured
     (snd (deliver decode_ok (fresh 0)
        [imu_arrived (imu_at 1.0 (0, 0, 1)), imu_arrived (imu_at 1.1 (0, 0, 2)),
         imu_arrived (imu_at 1.2 (0, 0, 3)), image_arrived (image_at 1.15) quiet]))
   \<noteq> map measurement
       (tl (imu_messages
          [imu_arrived (imu_at 1.0 (0, 0, 1)), imu_arrived (imu_at 1.1 (0, 0, 2)),
           imu_arrived (imu_at 1.2 (0, 0, 3)), image_arrived (image_at 1.15) quiet
             :: (nat, nat) arrival]))"
  by (simp add: imuCallback_def imageCallback_def imu_since_prev_img_def frame_end_def
        fresh_def imu_at_def image_at_def decode_ok_def Let_def)

theorem readings_neither_lost_nor_duplicated_witness:
  "is_first_imu (fresh 0) \<and> imu_queue (fresh 0) = []
   \<and> snd (deliver decode_ok (fresh 0)
        [imu_arrived (imu_at 1.0 (0, 0, 1)), imu_arrived (imu_at 1.1 (0, 0, 2)),
         imu_arrived (imu_at 1.2 (0, 0, 3)), image_arrived (image_at 1.15) quiet])
      = [snd (entry 1.1 (0, 0, 2) 0.1)]
   \<and> imu_queue (fst (deliver decode_ok (fresh 0)
        [imu_arrived (imu_at 1.0 (0, 0, 1)), imu_arrived (imu_at 1.1 (0, 0, 2)),
         imu_arrived (imu_at 1.2 (0, 0, 3)), image_arrived (image_at 1.15) quiet]))
      = [entry 1.2 (0, 0, 3) 0.2]
   \<and> map measured [snd (entry 1.1 (0, 0, 2) 0.1), snd (entry 1.2 (0, 0, 3) 0.2)]
      = map measurement [imu_at 1.1 (0, 0, 2), imu_at 1.2 (0, 0, 3)]"
proof -
  let ?es = "[imu_arrived (imu_at 1.0 (0, 0, 1)), imu_arrived (imu_at 1.1 (0, 0, 2)),
         imu_arrived (imu_at 1.2 (0, 0, 3)), image_arrived (image_at 1.15) quiet]
           :: (nat, nat) arrival list"
  have first: "is_first_imu (fresh 0)" and empty: "imu_queue (fresh 0) = []"
    by (simp_all add: fresh_def)
  have drained: "snd (deliver decode_ok (fresh 0) ?es) = [snd (entry 1.1 (0, 0, 2) 0.1)]"
    by (simp add: imuCallback_def imageCallback_def imu_since_prev_img_def frame_end_def
        fresh_def imu_at_def image_at_def decode_ok_def entry_def Let_def)
  have kept: "imu_queue (fst (deliver decode_ok (fresh 0) ?es)) = [entry 1.2 (0, 0, 3) 0.2]"
    by (simp add: imuCallback_def imageCallback_def imu_since_prev_img_def frame_end_def
        fresh_def imu_at_def image_at_def decode_ok_def entry_def Let_def)
  show ?thesis
    using readings_neither_lost_nor_duplicated [of "fresh 0" decode_ok ?es, OF first empty]
      first empty drained kept
    by simp
qed

subsection \<open>Parameters\<close>

lemma load_parameters_intrinsics:
  assumes "load_parameters nh T0 s = Inr (s', tr)"
      and "getParam_vector_float nh
             (getParam (getParam_string nh) ''kalibr_camera_name'' [] @ ''/intrinsics'')
           = Some [i0, i1, i2, i3]"
  shows "K s' = ((i0, 0, i2), (0, i1, i3), (0, 0, 1))"
    and "c_u (camera s') = i0" and "c_v (camera s') = i1"
    and "f_u (camera s') = i2" and "f_v (camera s') = i3"
  using assms
  by (auto simp: load_parameters_def Let_def getParam_def split: if_splits sum.splits)

lemma load_parameters_members_kept:
  assumes "load_parameters nh T0 s = Inr (s', tr)"
  shows "ransac_threshold s' = ransac_threshold s"
    and "init_imu_state s' = init_imu_state s"
    and "imu_queue s' = imu_queue s"
    and "is_first_imu s' = is_first_imu s"
    and "prev_imu_time s' = prev_imu_time s"
    and "is_calibrating_imu s' = is_calibrating_imu s"
  using assms
  by (auto simp: load_parameters_def Let_def split: if_splits sum.splits)

lemma load_parameters_grid:
  assumes "load_parameters nh T0 s = Inr (s', tr)"
  shows "n_grid_rows s' = param (getParam_int nh) ''n_grid_rows'' 8"
    and "n_grid_cols s' = param (getParam_int nh) ''n_grid_cols'' 8"
  using assms
  by (auto simp: load_parameters_def Let_def split: if_splits sum.splits)

lemma load_parameters_noise:
  assumes "load_parameters nh T0 s = Inr (s', tr)"
  shows "u_var_prime (noise_params s')
           = (param (getParam_float nh) ''feature_covariance'' 7 / f_u (camera s')) ^ 2"
    and "v_var_prime (noise_params s')
           = (param (getParam_float nh) ''feature_covariance'' 7 / f_v (camera s')) ^ 2"
    and "max_gn_cost_norm (msckf_params s')
           = (param (getParam_float nh) ''max_gn_cost_norm'' 11 / f_u (camera s')) ^ 2"
  using assms
  by (auto simp: load_parameters_def Let_def split: if_splits sum.splits)

lemma load_parameters_thresholds:
  assumes "load_parameters nh T0 s = Inr (s', tr)"
  shows "translation_threshold (msckf_params s')
           = param (getParam_float nh) ''translation_threshold'' 0.05"
    and "min_rcond (msckf_params s') = param (getParam_float nh) ''min_rcond'' (3 / 10 ^ 12)"
    and "redundancy_angle_thresh (msckf_params s')
           = param (getParam_float nh) ''keyframe_transl_dist'' 0.005"
    and "redundancy_distance_thresh (msckf_params s')
           = param (getParam_float nh) ''keyframe_rot_dist'' 0.05"
    and "max_track_length (msckf_params s') = param (getParam_int nh) ''max_track_length'' 1000"
    and "min_track_length (msckf_params s') = param (getParam_int nh) ''min_track_length'' 3"
    and "max_cam_states (msckf_params s') = param (getParam_int nh) ''max_cam_states'' 20"
  using assms
  by (auto simp: load_parameters_def Let_def split: if_splits sum.splits)

lemma read_identity_transform:
  "read_T_cam_imu identity_transform T0 =
     Inr (T0((0, 0) := 1, (0, 1) := 0, (0, 2) := 0, (0, 3) := 0,
             (1, 0) := 0, (1, 1) := 1, (1, 2) := 0, (1, 3) := 0,
             (2, 0) := 0, (2, 1) := 0, (2, 2) := 1, (2, 3) := 0,
             (3, 0) := 0, (3, 1) := 0, (3, 2) := 0, (3, 3) := 1))"
  by (simp add: read_T_cam_imu_def identity_transform_def eval_nat_numeral)

lemma server_loads:
  "\<exists>s' tr. load_parameters (server [i0, i1, i2, i3] floats) T0 s = Inr (s', tr)"
  by (simp add: load_parameters_def Let_def server_def getParam_def read_identity_transform)


lemma load_parameters_only_logs:
  assumes "load_parameters nh T0 s = Inr (s', tr)"
  shows "filter is_initialize tr = []" and "MSCKF_new \<notin> set tr"
  using assms
  by (auto simp: load_parameters_def Let_def split: if_splits sum.splits)

lemma RosInterface_ctor_Inr:
  assumes "RosInterface_ctor nh T0 obj = Inr (s, tr)"
  shows "\<exists>loaded. load_parameters nh T0 (obj\<lparr>is_calibrating_imu := True\<rparr>) = Inr (s, loaded)
           \<and> tr = loaded @ setup_track_handler s
                  @ [it_subscribe ''/rig/left/image_mono'' 1,
                     it_advertise ''/rig/left/image_mono/tracks'' 1,
                     nh_subscribe ''/rig/imu'' 10]"
  using assms by (auto simp: RosInterface_ctor_def split: sum.splits)

lemma server_constructs:
  "\<exists>s (tr :: ('img, 'st) call list).
     RosInterface_ctor (server [i0, i1, i2, i3] floats) T0 (obj :: 'st RosInterface)
       = Inr (s, tr)"
proof -
  obtain s' and loaded :: "('img, 'st) call list" where
    "load_parameters (server [i0, i1, i2, i3] floats) T0 (obj\<lparr>is_calibrating_imu := True\<rparr>)
       = Inr (s', loaded)"
    using server_loads by blast
  then show ?thesis by (simp add: RosInterface_ctor_def)
qed

text \<open>
  Claim C10. When the parameter server holds a four-element intrinsics vector and the
  parameters load, the matrix \<open>K_\<close> given to the tracker has elements 0 and 1 of the
  vector as its focal entries (0,0) and (1,1) and elements 2 and 3 as its principal
  point (0,2) and (1,2), while the camera model of the filter has elements 0 and 1 as
  \<open>c_u\<close>, \<open>c_v\<close> and elements 2 and 3 as \<open>f_u\<close>, \<open>f_v\<close>. The focal entries of \<open>K_\<close> are
  the focal lengths of the camera model exactly when element 0 equals element 2 and
  element 1 equals element 3.
\<close>

theorem intrinsics_roles:
  assumes loaded: "load_parameters nh T0 s = Inr (s', tr)"
      and vector: "getParam_vector_float nh
             (getParam (getParam_string nh) ''kalibr_camera_name'' [] @ ''/intrinsics'')
           = Some [i0, i1, i2, i3]"
  shows "at3 (K s') 0 0 = i0 \<and> at3 (K s') 1 1 = i1
       \<and> at3 (K s') 0 2 = i2 \<and> at3 (K s') 1 2 = i3
       \<and> c_u (camera s') = i0 \<and> c_v (camera s') = i1
       \<and> f_u (camera s') = i2 \<and> f_v (camera s') = i3
       \<and> ((at3 (K s') 0 0 = f_u (camera s') \<and> at3 (K s') 1 1 = f_v (camera s'))
            = (i0 = i2 \<and> i1 = i3))"
  using load_parameters_intrinsics [OF loaded vector] by (simp add: at3_def)

theorem intrinsics_roles_witness:
  "\<exists>s' tr.
     load_parameters (server [300, 300, 320, 240] Map.empty) (\<lambda>ij. 0) (fresh 0)
       = Inr (s', tr :: (nat, unit) call list)
     \<and> getParam_vector_float (server [300, 300, 320, 240] Map.empty)
          (getParam (getParam_string (server [300, 300, 320, 240] Map.empty))
             ''kalibr_camera_name'' [] @ ''/intrinsics'')
        = Some [300, 300, 320, 240]
     \<and> at3 (K s') 0 0 = 300 \<and> at3 (K s') 1 1 = 300
     \<and> at3 (K s') 0 2 = 320 \<and> at3 (K s') 1 2 = 240
     \<and> c_u (camera s') = 300 \<and> c_v (camera s') = 300
     \<and> f_u (camera s') = 320 \<and> f_v (camera s') = 240
     \<and> \<not> (at3 (K s') 0 0 = f_u (camera s') \<and> at3 (K s') 1 1 = f_v (camera s'))"
proof -
  let ?nh = "server [300, 300, 320, 240] Map.empty"
  obtain s' and tr :: "(nat, unit) call list"
    where loaded: "load_parameters ?nh (\<lambda>ij. 0) (fresh 0) = Inr (s', tr)"
    using server_loads by blast
  have vector: "getParam_vector_float ?nh
          (getParam (getParam_string ?nh) ''kalibr_camera_name'' [] @ ''/intrinsics'')
        = Some [300, 300, 320, 240]"
    by (simp add: server_def getParam_def)
  show ?thesis
    using intrinsics_roles [OF loaded vector] loaded vector by auto
qed

text \<open>
  Claim C1, evaluated on the code. The intrinsics vector is \<open>[300, 300, 320, 240]\<close>,
  read as (f_u, f_v, c_u, c_v), which is how \<open>K_\<close> reads it, and \<open>feature_covariance\<close>
  is 7. The pixel-noise variances come out as the squares of 7/320 and 7/240, not of
  7/300, and the cost norm as the square of 11/320: the camera model takes its focal
  lengths from elements 2 and 3 (\<open>load_parameters_noise\<close> gives the formula in terms of
  the camera model's own \<open>f_u\<close> and \<open>f_v\<close>).
\<close>

theorem pixel_noise_of_kalibr_intrinsics:
  "(case load_parameters (server [300, 300, 320, 240] [''feature_covariance'' \<mapsto> 7])
           (\<lambda>ij. 0) (fresh 0) :: error + (unit RosInterface \<times> (nat, unit) call list) of
      Inl e \<Rightarrow> False
    | Inr (s, tr) \<Rightarrow>
        K s = ((300, 0, 320), (0, 300, 240), (0, 0, 1))
        \<and> u_var_prime (noise_params s) = (7 / 320) ^ 2
        \<and> v_var_prime (noise_params s) = (7 / 240) ^ 2
        \<and> u_var_prime (noise_params s) \<noteq> (7 / 300) ^ 2
        \<and> v_var_prime (noise_params s) \<noteq> (7 / 300) ^ 2
        \<and> max_gn_cost_norm (msckf_params s) = (11 / 320) ^ 2
        \<and> max_gn_cost_norm (msckf_params s) \<noteq> (11 / 300) ^ 2)"
proof -
  let ?nh = "server [300, 300, 320, 240] [''feature_covariance'' \<mapsto> 7]"
  obtain s' and tr :: "(nat, unit) call list"
    where loaded: "load_parameters ?nh (\<lambda>ij. 0) (fresh 0) = Inr (s', tr)"
    using server_loads by blast
  have vector: "getParam_vector_float ?nh
          (getParam (getParam_string ?nh) ''kalibr_camera_name'' [] @ ''/intrinsics'')
        = Some [300, 300, 320, 240]"
    by (simp add: server_def getParam_def)
  have std: "param (getParam_float ?nh) ''feature_covariance'' 7 = 7"
    and cost: "param (getParam_float ?nh) ''max_gn_cost_norm'' 11 = 11"
    by (simp_all add: server_def param_def)
  show ?thesis
    using load_parameters_intrinsics [OF loaded vector] load_parameters_noise [OF loaded]
      std cost
    by (simp add: loaded)
qed

text \<open>
  Claim C6, evaluated on the code. With \<open>keyframe_transl_dist\<close> set to 1 and
  \<open>keyframe_rot_dist\<close> set to 2, the translation value 1 is stored in the angle
  threshold and the rotation value 2 in the distance threshold. The other thresholds
  are stored in the fields of their own names, with the defaults of
  \<open>load_parameters_thresholds\<close>.
\<close>

theorem keyframe_thresholds_stored_crosswise:
  "(case load_parameters
           (server [300, 300, 320, 240]
              [''keyframe_transl_dist'' \<mapsto> 1, ''keyframe_rot_dist'' \<mapsto> 2])
           (\<lambda>ij. 0) (fresh 0) :: error + (unit RosInterface \<times> (nat, unit) call list) of
      Inl e \<Rightarrow> False
    | Inr (s, tr) \<Rightarrow>
        redundancy_angle_thresh (msckf_params s) = 1
        \<and> redundancy_distance_thresh (msckf_params s) = 2)"
proof -
  let ?nh = "server [300, 300, 320, 240]
              [''keyframe_transl_dist'' \<mapsto> 1, ''keyframe_rot_dist'' \<mapsto> 2]"
  obtain s' and tr :: "(nat, unit) call list"
    where loaded: "load_parameters ?nh (\<lambda>ij. 0) (fresh 0) = Inr (s', tr)"
    using server_loads by blast
  have transl: "param (getParam_float ?nh) ''keyframe_transl_dist'' 0.005 = 1"
    and rot: "param (getParam_float ?nh) ''keyframe_rot_dist'' 0.05 = 2"
    by (simp_all add: server_def param_def)
  show ?thesis
    using load_parameters_thresholds(3,4) [OF loaded] transl rot
    by (simp add: loaded)
qed


subsection \<open>Construction\<close>

lemma RosInterface_ctor_threshold:
  assumes "RosInterface_ctor nh T0 obj = Inr (s, tr)"
  shows "set_ransac_threshold (ransac_threshold obj) \<in> set tr"
    and "set_grid_size (param (getParam_int nh) ''n_grid_rows'' 8)
           (param (getParam_int nh) ''n_grid_cols'' 8) \<in> set tr"
    and "filter (\<lambda>c. \<exists>x. c = set_ransac_threshold x) tr
           = [set_ransac_threshold (ransac_threshold obj)]"
proof -
  from RosInterface_ctor_Inr [OF assms] obtain loaded where
    loaded: "load_parameters nh T0 (obj\<lparr>is_calibrating_imu := True\<rparr>) = Inr (s, loaded)"
    and tr: "tr = loaded @ setup_track_handler s
                  @ [it_subscribe ''/rig/left/image_mono'' 1,
                     it_advertise ''/rig/left/image_mono/tracks'' 1,
                     nh_subscribe ''/rig/imu'' 10]"
    by blast
  have kept: "ransac_threshold s = ransac_threshold obj"
    using load_parameters_members_kept(1) [OF loaded] by simp
  show "set_ransac_threshold (ransac_threshold obj) \<in> set tr"
    by (simp add: tr setup_track_handler_def kept)
  show "set_grid_size (param (getParam_int nh) ''n_grid_rows'' 8)
           (param (getParam_int nh) ''n_grid_cols'' 8) \<in> set tr"
    by (simp add: tr setup_track_handler_def load_parameters_grid [OF loaded])
  have "filter (\<lambda>c. \<exists>x. c = set_ransac_threshold x) loaded = []"
    using loaded by (auto simp: load_parameters_def Let_def split: if_splits sum.splits)
  then show "filter (\<lambda>c. \<exists>x. c = set_ransac_threshold x) tr
           = [set_ransac_threshold (ransac_threshold obj)]"
    by (simp add: tr setup_track_handler_def kept)
qed

text \<open>
  Claim C9, evaluated on the code. The object is constructed with the parameter
  \<open>ransac_threshold_\<close> set to 0.5, and again with the parameter absent, while the member
  \<open>ransac_threshold_\<close> holds 42 beforehand. In both runs the grid size passed to the
  tracker is the default 8 by 8, and the only threshold passed to it is 42: neither
  the configured 0.5 nor the default 0.000002.
\<close>

theorem tracker_gets_stored_ransac_threshold:
  "(case RosInterface_ctor (server [300, 300, 320, 240] [''ransac_threshold_'' \<mapsto> 0.5])
           (\<lambda>ij. 0) (fresh 42) :: error + (unit RosInterface \<times> (nat, unit) call list) of
      Inl e \<Rightarrow> False
    | Inr (s, tr) \<Rightarrow>
        set_grid_size 8 8 \<in> set tr
        \<and> filter (\<lambda>c. \<exists>x. c = set_ransac_threshold x) tr = [set_ransac_threshold 42])
   \<and> (case RosInterface_ctor (server [300, 300, 320, 240] Map.empty)
           (\<lambda>ij. 0) (fresh 42) :: error + (unit RosInterface \<times> (nat, unit) call list) of
      Inl e \<Rightarrow> False
    | Inr (s, tr) \<Rightarrow>
        set_grid_size 8 8 \<in> set tr
        \<and> filter (\<lambda>c. \<exists>x. c = set_ransac_threshold x) tr = [set_ransac_threshold 42])"
proof -
  let ?given = "server [300, 300, 320, 240] [''ransac_threshold_'' \<mapsto> 0.5]"
  let ?absent = "server [300, 300, 320, 240] Map.empty"
  obtain s1 and tr1 :: "(nat, unit) call list"
    where given: "RosInterface_ctor ?given (\<lambda>ij. 0) (fresh 42) = Inr (s1, tr1)"
    using server_constructs by blast
  obtain s2 and tr2 :: "(nat, unit) call list"
    where absent: "RosInterface_ctor ?absent (\<lambda>ij. 0) (fresh 42) = Inr (s2, tr2)"
    using server_constructs by blast
  have stored: "ransac_threshold (fresh 42) = 42" by (simp add: fresh_def)
  have grid: "param (getParam_int ?given) ''n_grid_rows'' 8 = 8"
    "param (getParam_int ?given) ''n_grid_cols'' 8 = 8"
    "param (getParam_int ?absent) ''n_grid_rows'' 8 = 8"
    "param (getParam_int ?absent) ''n_grid_cols'' 8 = 8"
    by (simp_all add: server_def param_def)
  show ?thesis
    using RosInterface_ctor_threshold(2,3) [OF given]
      RosInterface_ctor_threshold(2,3) [OF absent] grid given absent stored
    by simp
qed

text \<open>
  Claim C8, as amended. A construction that succeeds loads the parameters, sets up the
  tracker and subscribes; none of its calls creates the filter or calls its
  \<open>initialize\<close>. \<open>setup_msckf\<close>, run on the constructed object, creates the filter and
  calls \<open>initialize\<close> once, with the camera model, the noise parameters and the filter
  parameters that \<open>load_parameters\<close> derived and the initial state the object held
  before construction.
\<close>

theorem construction_leaves_estimator_uninitialised:
  assumes built: "RosInterface_ctor nh T0 obj = Inr (s, tr)"
  shows "filter is_initialize tr = []
       \<and> MSCKF_new \<notin> set tr
       \<and> (\<exists>loaded. load_parameters nh T0 (obj\<lparr>is_calibrating_imu := True\<rparr>) = Inr (s, loaded)
            \<and> tr = loaded @ setup_track_handler s
                     @ [it_subscribe ''/rig/left/image_mono'' 1,
                        it_advertise ''/rig/left/image_mono/tracks'' 1,
                        nh_subscribe ''/rig/imu'' 10])
       \<and> setup_msckf s
           = [MSCKF_new,
              initialize (camera s) (noise_params s) (msckf_params s) (init_imu_state obj)]
       \<and> filter is_initialize (setup_msckf s)
           = [initialize (camera s) (noise_params s) (msckf_params s) (init_imu_state obj)]"
proof -
  from RosInterface_ctor_Inr [OF built] obtain loaded where
    loaded: "load_parameters nh T0 (obj\<lparr>is_calibrating_imu := True\<rparr>) = Inr (s, loaded)"
    and tr: "tr = loaded @ setup_track_handler s
                  @ [it_subscribe ''/rig/left/image_mono'' 1,
                     it_advertise ''/rig/left/image_mono/tracks'' 1,
                     nh_subscribe ''/rig/imu'' 10]"
    by blast
  have none: "filter is_initialize tr = []"
    by (simp add: tr load_parameters_only_logs(1) [OF loaded] setup_track_handler_def)
  have no_filter: "MSCKF_new \<notin> set tr"
    using load_parameters_only_logs(2) [OF loaded] by (simp add: tr setup_track_handler_def)
  have state: "init_imu_state s = init_imu_state obj"
    using load_parameters_members_kept(2) [OF loaded] by simp
  have estimator: "setup_msckf s
           = [MSCKF_new,
              initialize (camera s) (noise_params s) (msckf_params s) (init_imu_state obj)]"
    by (simp add: setup_msckf_def state)
  have once: "filter is_initialize (setup_msckf s)
           = [initialize (camera s) (noise_params s) (msckf_params s) (init_imu_state obj)]"
    by (simp add: setup_msckf_def state)
  from none no_filter loaded tr estimator once show ?thesis by blast
qed

text \<open>
  Claim C8 as stated fails: the calls of a construction do not contain exactly one
  \<open>initialize\<close>.
\<close>

theorem construction_initialises_estimator_counterexample:
  "(case RosInterface_ctor (server [300, 300, 320, 240] Map.empty)
           (\<lambda>ij. 0) (fresh 0) :: error + (unit RosInterface \<times> (nat, unit) call list) of
      Inl e \<Rightarrow> False
    | Inr (s, tr) \<Rightarrow> length (filter is_initialize tr) \<noteq> 1)"
proof -
  obtain s and tr :: "(nat, unit) call list"
    where built: "RosInterface_ctor (server [300, 300, 320, 240] Map.empty) (\<lambda>ij. 0) (fresh 0)
                    = Inr (s, tr)"
    using server_constructs by blast
  from RosInterface_ctor_Inr [OF built] obtain loaded where
    loaded: "load_parameters (server [300, 300, 320, 240] Map.empty) (\<lambda>ij. 0)
               ((fresh 0)\<lparr>is_calibrating_imu := True\<rparr>) = Inr (s, loaded)"
    and tr: "tr = loaded @ setup_track_handler s
                  @ [it_subscribe ''/rig/left/image_mono'' 1,
                     it_advertise ''/rig/left/image_mono/tracks'' 1,
                     nh_subscribe ''/rig/imu'' 10]"
    by blast
  have "filter is_initialize tr = []"
    by (simp add: tr load_parameters_only_logs(1) [OF loaded] setup_track_handler_def)
  then show ?thesis by (simp add: built)
qed

theorem construction_leaves_estimator_uninitialised_witness:
  "\<exists>s (tr :: (nat, unit) call list).
     RosInterface_ctor (server [300, 300, 320, 240] Map.empty) (\<lambda>ij. 0) (fresh 0) = Inr (s, tr)
     \<and> filter is_initialize tr = []
     \<and> MSCKF_new \<notin> set tr
     \<and> f_u (camera s) = 320
     \<and> (setup_msckf s :: (nat, unit) call list)
         = [MSCKF_new, initialize (camera s) (noise_params s) (msckf_params s) ()]"
proof -
  let ?nh = "server [300, 300, 320, 240] Map.empty"
  obtain s and tr :: "(nat, unit) call list"
    where built: "RosInterface_ctor ?nh (\<lambda>ij. 0) (fresh 0) = Inr (s, tr)"
    using server_constructs by blast
  have vector: "getParam_vector_float ?nh
          (getParam (getParam_string ?nh) ''kalibr_camera_name'' [] @ ''/intrinsics'')
        = Some [300, 300, 320, 240]"
    by (simp add: server_def getParam_def)
  from construction_leaves_estimator_uninitialised [OF built]
  have facts: "filter is_initialize tr = []" "MSCKF_new \<notin> set tr"
    "\<exists>loaded :: (nat, unit) call list.
        load_parameters ?nh (\<lambda>ij. 0) ((fresh 0)\<lparr>is_calibrating_imu := True\<rparr>) = Inr (s, loaded)"
    "(setup_msckf s :: (nat, unit) call list)
         = [MSCKF_new, initialize (camera s) (noise_params s) (msckf_params s)
                         (init_imu_state (fresh 0))]"
    by blast+
  from facts(3) obtain loaded :: "(nat, unit) call list" where
    "load_parameters ?nh (\<lambda>ij. 0) ((fresh 0)\<lparr>is_calibrating_imu := True\<rparr>) = Inr (s, loaded)"
    by blast
  from load_parameters_intrinsics(4) [OF this vector] have focal: "f_u (camera s) = 320" .
  from built facts(1,2,4) focal show ?thesis by simp
qed

end
